theory Spec2Isabelle
  imports Main "HOL-Library.Word"
begin

unbundle bit_operations_syntax

section \<open>Machine model\<close>

text \<open>
  The allocator of \<^verbatim>\<open>mm.c\<close> is embedded for an LP64 little-endian machine:
  pointers and \<^verbatim>\<open>size_t\<close> are 64-bit words (so the word size W is 8 bytes),
  \<^verbatim>\<open>int\<close> is a 32-bit word. Memory is a total map from byte addresses to
  bytes; address arithmetic wraps modulo \<open>2 ^ 64\<close>.
\<close>

type_synonym ptr = "64 word"
type_synonym size_t = "64 word"
type_synonym cint = "32 word"
type_synonym byte = "8 word"
type_synonym memory = "ptr \<Rightarrow> byte"

text \<open>A 4-byte \<^verbatim>\<open>int\<close> access and an 8-byte pointer access, least significant byte first.\<close>

definition load32 :: "memory \<Rightarrow> ptr \<Rightarrow> cint" where
  "load32 m p =
     ucast (m p) OR push_bit 8 (ucast (m (p + 1))) OR
     push_bit 16 (ucast (m (p + 2))) OR push_bit 24 (ucast (m (p + 3)))"

definition store32 :: "memory \<Rightarrow> ptr \<Rightarrow> cint \<Rightarrow> memory" where
  "store32 m p v =
     m(p := ucast v, p + 1 := ucast (drop_bit 8 v),
       p + 2 := ucast (drop_bit 16 v), p + 3 := ucast (drop_bit 24 v))"

definition load64 :: "memory \<Rightarrow> ptr \<Rightarrow> ptr" where
  "load64 m p =
     ucast (load32 m p) OR push_bit 32 (ucast (load32 m (p + 4)))"

definition store64 :: "memory \<Rightarrow> ptr \<Rightarrow> ptr \<Rightarrow> memory" where
  "store64 m p v = store32 (store32 m p (ucast v)) (p + 4) (ucast (drop_bit 32 v))"

section \<open>Constants and macros (mm.c, lines 37-72)\<close>

definition WSIZE :: size_t where
  "WSIZE = 8"

definition DSIZE :: size_t where
  "DSIZE = 2 * WSIZE"

definition ALIGNMENT :: size_t where
  "ALIGNMENT = 2 * WSIZE"

definition MINIMUM :: size_t where
  "MINIMUM = 6 * WSIZE"

text \<open>
  \<^verbatim>\<open>#define ALIGN(p) (((size_t)(p) + (ALIGNMENT-1)+ DSIZE) & ~0x7)\<close>.
  The mask \<^verbatim>\<open>~0x7\<close> is the \<^verbatim>\<open>int\<close> \<open>-8\<close>, converted to \<^verbatim>\<open>size_t\<close> by sign extension.
\<close>

definition ALIGN :: "size_t \<Rightarrow> size_t" where
  "ALIGN p = (p + (ALIGNMENT - 1) + DSIZE) AND scast (NOT 7 :: cint)"

definition MAX_of :: "size_t \<Rightarrow> size_t \<Rightarrow> size_t" where
  "MAX_of x y = (if x > y then x else y)"

definition PACK :: "size_t \<Rightarrow> size_t \<Rightarrow> size_t" where
  "PACK sz alloc = sz OR alloc"

text \<open>
  \<^verbatim>\<open>GET(p)\<close> is \<^verbatim>\<open>*(int *)(p)\<close> and \<^verbatim>\<open>PUT(p, val)\<close> is \<^verbatim>\<open>*(int *)(p) = (val)\<close>:
  both access four bytes, and \<^verbatim>\<open>PUT\<close> converts the \<^verbatim>\<open>size_t\<close> value to \<^verbatim>\<open>int\<close>.
\<close>

definition GET :: "memory \<Rightarrow> ptr \<Rightarrow> cint" where
  "GET m p = load32 m p"

definition PUT :: "memory \<Rightarrow> ptr \<Rightarrow> size_t \<Rightarrow> memory" where
  "PUT m p val = store32 m p (ucast val)"

definition GET_SIZE :: "memory \<Rightarrow> ptr \<Rightarrow> cint" where
  "GET_SIZE m p = GET m p AND NOT 7"

definition GET_ALLOC :: "memory \<Rightarrow> ptr \<Rightarrow> cint" where
  "GET_ALLOC m p = GET m p AND 1"

definition HDRP :: "ptr \<Rightarrow> ptr" where
  "HDRP bp = bp - WSIZE"

text \<open>The \<^verbatim>\<open>int\<close> size is added to a pointer, or assigned to a \<^verbatim>\<open>size_t\<close>, by sign extension.\<close>

definition FTRP :: "memory \<Rightarrow> ptr \<Rightarrow> ptr" where
  "FTRP m bp = bp + scast (GET_SIZE m (HDRP bp)) - DSIZE"

definition NEXT_BLKP :: "memory \<Rightarrow> ptr \<Rightarrow> ptr" where
  "NEXT_BLKP m bp = bp + scast (GET_SIZE m (HDRP bp))"

definition PREV_BLKP :: "memory \<Rightarrow> ptr \<Rightarrow> ptr" where
  "PREV_BLKP m bp = bp - scast (GET_SIZE m (HDRP bp - WSIZE))"

definition NEXT_FREEP :: "memory \<Rightarrow> ptr \<Rightarrow> ptr" where
  "NEXT_FREEP m bp = load64 m (bp + DSIZE)"

definition PREV_FREEP :: "memory \<Rightarrow> ptr \<Rightarrow> ptr" where
  "PREV_FREEP m bp = load64 m bp"

section \<open>Allocator state and the arena provider\<close>

record heap =
  mem :: memory
  mem_brk :: ptr
  mem_max_addr :: ptr
  heap_listp :: ptr
  free_listp :: ptr

text \<open>
  Modelled from the spec: the arena provider (\<^verbatim>\<open>mem_sbrk\<close> of \<^verbatim>\<open>memlib.c\<close>) is not
  part of the sources. It appends \<open>incr\<close> bytes to the arena and returns the address of
  the newly added region (the old break), or an error sentinel and no change when the
  arena cannot grow that far. The sentinel is \<^verbatim>\<open>(void *)-1\<close>, the value
  \<^verbatim>\<open>extendHeap\<close> tests for (line 250).
\<close>

definition mem_sbrk :: "size_t \<Rightarrow> heap \<Rightarrow> ptr \<times> heap" where
  "mem_sbrk incr h =
     (if unat (mem_brk h) + unat incr > unat (mem_max_addr h) then (- 1, h)
      else (mem_brk h, h\<lparr>mem_brk := mem_brk h + incr\<rparr>))"

section \<open>Free list (mm.c, lines 532-556)\<close>

definition add :: "ptr \<Rightarrow> heap \<Rightarrow> heap" where
  "add bp h =
     (let m1 = store64 (mem h) (bp + DSIZE) (free_listp h);
          m2 = store64 m1 (free_listp h) bp;
          m3 = store64 m2 bp 0
      in h\<lparr>mem := m3, free_listp := bp\<rparr>)"

definition delete :: "ptr \<Rightarrow> heap \<Rightarrow> heap" where
  "delete bp h =
     (let h1 = (if PREV_FREEP (mem h) bp \<noteq> 0
                then h\<lparr>mem := store64 (mem h) (PREV_FREEP (mem h) bp + DSIZE)
                                 (NEXT_FREEP (mem h) bp)\<rparr>
                else h\<lparr>free_listp := NEXT_FREEP (mem h) bp\<rparr>)
      in h1\<lparr>mem := store64 (mem h1) (NEXT_FREEP (mem h1) bp) (PREV_FREEP (mem h1) bp)\<rparr>)"

section \<open>Coalescing (mm.c, lines 271-310)\<close>

definition coalesce :: "ptr \<Rightarrow> heap \<Rightarrow> ptr \<times> heap" where
  "coalesce bp h =
     (let m = mem h;
          prev_alloc = (GET_ALLOC m (FTRP m (PREV_BLKP m bp)) \<noteq> 0 \<or> PREV_BLKP m bp = bp);
          next_alloc = (GET_ALLOC m (HDRP (NEXT_BLKP m bp)) \<noteq> 0);
          sz = (scast (GET_SIZE m (HDRP bp)) :: size_t)
      in if prev_alloc \<and> \<not> next_alloc then
           (let size1 = sz + scast (GET_SIZE m (HDRP (NEXT_BLKP m bp)));
                h1 = delete (NEXT_BLKP m bp) h;
                m2 = PUT (mem h1) (HDRP bp) (PACK size1 0);
                m3 = PUT m2 (FTRP m2 bp) (PACK size1 0)
            in (bp, add bp (h1\<lparr>mem := m3\<rparr>)))
         else if \<not> prev_alloc \<and> next_alloc then
           (let size1 = sz + scast (GET_SIZE m (HDRP (PREV_BLKP m bp)));
                bp1 = PREV_BLKP m bp;
                h1 = delete bp1 h;
                m2 = PUT (mem h1) (HDRP bp1) (PACK size1 0);
                m3 = PUT m2 (FTRP m2 bp1) (PACK size1 0)
            in (bp1, add bp1 (h1\<lparr>mem := m3\<rparr>)))
         else if \<not> prev_alloc \<and> \<not> next_alloc then
           (let size1 = sz + scast (GET_SIZE m (HDRP (PREV_BLKP m bp))) +
                          scast (GET_SIZE m (HDRP (NEXT_BLKP m bp)));
                h1 = delete (PREV_BLKP m bp) h;
                h2 = delete (NEXT_BLKP (mem h1) bp) h1;
                bp1 = PREV_BLKP (mem h2) bp;
                m3 = PUT (mem h2) (HDRP bp1) (PACK size1 0);
                m4 = PUT m3 (FTRP m3 bp1) (PACK size1 0)
            in (bp1, add bp1 (h2\<lparr>mem := m4\<rparr>)))
         else (bp, add bp h))"

section \<open>Arena extension (mm.c, lines 241-260)\<close>

definition extendHeap :: "size_t \<Rightarrow> heap \<Rightarrow> ptr \<times> heap" where
  "extendHeap words h =
     (let size0 = (if words mod 2 \<noteq> 0 then (words + 1) * WSIZE else words * WSIZE);
          sz = (if size0 < MINIMUM then MINIMUM else size0);
          (bp, h1) = mem_sbrk sz h
      in if bp = - 1 then (0, h1)
         else
           (let m1 = PUT (mem h1) (HDRP bp) (PACK sz 0);
                m2 = PUT m1 (FTRP m1 bp) (PACK sz 0);
                m3 = PUT m2 (HDRP (NEXT_BLKP m2 bp)) (PACK 0 1)
            in coalesce bp (h1\<lparr>mem := m3\<rparr>)))"

section \<open>Search and placement (mm.c, lines 320-374)\<close>

text \<open>
  The loop of \<^verbatim>\<open>findFit\<close> follows \<^verbatim>\<open>NEXT_FREEP\<close> links until it meets an allocated
  header; on a cyclic list of free blocks that are all too small it does not return,
  which is the value \<open>None\<close>. \<open>Some 0\<close> is the \<^verbatim>\<open>NULL\<close> result.
\<close>

partial_function (option) findFit_loop :: "memory \<Rightarrow> size_t \<Rightarrow> ptr \<Rightarrow> ptr option" where
  "findFit_loop m asize bp =
     (if GET_ALLOC m (HDRP bp) = 0
      then (if asize \<le> scast (GET_SIZE m (HDRP bp)) then Some bp
            else findFit_loop m asize (NEXT_FREEP m bp))
      else Some 0)"

declare findFit_loop.simps [code]

definition findFit :: "size_t \<Rightarrow> heap \<Rightarrow> ptr option" where
  "findFit asize h = findFit_loop (mem h) asize (free_listp h)"

definition place :: "ptr \<Rightarrow> size_t \<Rightarrow> heap \<Rightarrow> heap" where
  "place bp asize h =
     (let csize = (scast (GET_SIZE (mem h) (HDRP bp)) :: size_t)
      in if csize - asize \<ge> MINIMUM then
           (let m1 = PUT (mem h) (HDRP bp) (PACK asize 1);
                m2 = PUT m1 (FTRP m1 bp) (PACK asize 1);
                h3 = delete bp (h\<lparr>mem := m2\<rparr>);
                bp1 = NEXT_BLKP (mem h3) bp;
                m4 = PUT (mem h3) (HDRP bp1) (PACK (csize - asize) 0);
                m5 = PUT m4 (FTRP m4 bp1) (PACK (csize - asize) 0)
            in snd (coalesce bp1 (h3\<lparr>mem := m5\<rparr>)))
         else
           (let m1 = PUT (mem h) (HDRP bp) (PACK csize 1);
                m2 = PUT m1 (FTRP m1 bp) (PACK csize 1)
            in delete bp (h\<lparr>mem := m2\<rparr>)))"

section \<open>Public operations (mm.c, lines 99-232)\<close>

text \<open>
  The state of \<^verbatim>\<open>mm_init\<close> after line 116: the first provider call has returned
  \<open>p\<close>, the padding, prologue and epilogue words are written and the free-list head is
  set. \<^verbatim>\<open>2*MINIMUM\<close> expands to \<^verbatim>\<open>2*6 * sizeof(void *)\<close>.
\<close>

definition init_layout :: "ptr \<Rightarrow> heap \<Rightarrow> heap" where
  "init_layout p h =
     (let m1 = PUT (mem h) p 0;
          m2 = PUT m1 (p + 1 * WSIZE) (PACK MINIMUM 1);
          m3 = PUT m2 (p + 2 * WSIZE) 0;
          m4 = PUT m3 (p + 3 * WSIZE) 0;
          m5 = PUT m4 (p + MINIMUM) (PACK MINIMUM 1);
          m6 = PUT m5 (p + WSIZE + MINIMUM) (PACK 0 1)
      in h\<lparr>mem := m6, heap_listp := p, free_listp := p + DSIZE\<rparr>)"

text \<open>
  \<^verbatim>\<open>CHUNKSIZE\<close> is defined without parentheses as \<^verbatim>\<open>1<<12\<close>, so the argument
  \<^verbatim>\<open>CHUNKSIZE / WSIZE\<close> of line 119 expands to \<^verbatim>\<open>1<<12 / sizeof(void *)\<close>, which C
  parses as \<^verbatim>\<open>1 << (12 / sizeof(void *))\<close>. The result \<open>0\<close> is success and \<open>-1\<close>
  is failure.
\<close>

definition mm_init :: "heap \<Rightarrow> cint \<times> heap" where
  "mm_init h =
     (let (p, h1) = mem_sbrk (2 * 6 * WSIZE) h
      in if p = 0 then (- 1, h1\<lparr>heap_listp := p\<rparr>)
         else
           (let h2 = init_layout p h1;
                (bp, h3) = extendHeap (scast (push_bit (unat (12 div WSIZE)) (1 :: cint))) h2
            in if bp = 0 then (- 1, h3) else (0, h3)))"

text \<open>
  In \<^verbatim>\<open>MAX(asize, CHUNKSIZE)\<close> the macro parenthesises its arguments, so the chunk is
  \<open>1 << 12 = 4096\<close> there. A result of \<open>None\<close> is a search that does not return.
\<close>

definition mm_malloc :: "size_t \<Rightarrow> heap \<Rightarrow> (ptr \<times> heap) option" where
  "mm_malloc sz h =
     (if sz = 0 then Some (0, h)
      else
        (let asize = MAX_of (ALIGN sz) MINIMUM
         in case findFit asize h of
              None \<Rightarrow> None
            | Some bp \<Rightarrow>
                if bp \<noteq> 0 then Some (bp, place bp asize h)
                else
                  (let extendsize = MAX_of asize (scast (push_bit 12 (1 :: cint)));
                       (bp1, h1) = extendHeap (extendsize div WSIZE) h
                   in if bp1 = 0 then Some (0, h1)
                      else Some (bp1, place bp1 asize h1))))"

definition mm_free :: "ptr \<Rightarrow> heap \<Rightarrow> heap" where
  "mm_free bp h =
     (if bp = 0 then h
      else
        (let sz = (scast (GET_SIZE (mem h) (HDRP bp)) :: size_t);
             m1 = PUT (mem h) (HDRP bp) (PACK sz 0);
             m2 = PUT m1 (FTRP m1 bp) (PACK sz 0)
         in snd (coalesce bp (h\<lparr>mem := m2\<rparr>))))"

text \<open>
  \<^verbatim>\<open>memcpy(dst, src, n)\<close>: every byte of the destination range receives the byte the
  source range held before the call (the two ranges do not overlap in a defined call).
\<close>

definition memcpy :: "ptr \<Rightarrow> ptr \<Rightarrow> size_t \<Rightarrow> memory \<Rightarrow> memory" where
  "memcpy dst src n m = (\<lambda>a. if a - dst < n then m (src + (a - dst)) else m a)"

definition mm_realloc :: "ptr \<Rightarrow> size_t \<Rightarrow> heap \<Rightarrow> (ptr \<times> heap) option" where
  "mm_realloc bp sz h =
     (if (ucast sz :: cint) <s 0 then Some (0, h)
      else if (ucast sz :: cint) = 0 then Some (0, mm_free bp h)
      else if sz > 0 then
        (let oldsize = (scast (GET_SIZE (mem h) (HDRP bp)) :: size_t);
             newsize = sz + 2 * WSIZE
         in if newsize \<le> oldsize then Some (bp, h)
            else
              (let next_alloc = GET_ALLOC (mem h) (HDRP (NEXT_BLKP (mem h) bp));
                   csize = oldsize + scast (GET_SIZE (mem h) (HDRP (NEXT_BLKP (mem h) bp)))
               in if next_alloc = 0 \<and> csize \<ge> newsize then
                    (let h1 = delete (NEXT_BLKP (mem h) bp) h;
                         m2 = PUT (mem h1) (HDRP bp) (PACK csize 1);
                         m3 = PUT m2 (FTRP m2 bp) (PACK csize 1)
                     in Some (bp, h1\<lparr>mem := m3\<rparr>))
                  else
                    (case mm_malloc newsize h of
                       None \<Rightarrow> None
                     | Some (new_ptr, h1) \<Rightarrow>
                         (let h2 = place new_ptr newsize h1;
                              h3 = h2\<lparr>mem := memcpy new_ptr bp newsize (mem h2)\<rparr>;
                              h4 = mm_free bp h3
                          in Some (new_ptr, h4)))))
      else Some (0, h))"

section \<open>The free list as the search sees it\<close>

text \<open>
  \<open>free_chain m p bs\<close>: starting at \<open>p\<close> and following \<^verbatim>\<open>NEXT_FREEP\<close>, the
  traversal meets exactly the blocks \<open>bs\<close>, all with a clear allocated bit, and then a
  block whose allocated bit is set.
\<close>

fun free_chain :: "memory \<Rightarrow> ptr \<Rightarrow> ptr list \<Rightarrow> bool" where
  "free_chain m p [] = (GET_ALLOC m (HDRP p) \<noteq> 0)"
| "free_chain m p (b # bs) =
     (p = b \<and> GET_ALLOC m (HDRP b) = 0 \<and> free_chain m (NEXT_FREEP m b) bs)"

section \<open>Concrete heaps used to instantiate the theorems\<close>

text \<open>A fresh, zero-filled arena of one megabyte whose first byte is at address \<open>0x1000\<close>.\<close>

definition arena0 :: heap where
  "arena0 = \<lparr>mem = (\<lambda>_. 0), mem_brk = 0x1000, mem_max_addr = 0x100000,
     heap_listp = 0, free_listp = 0\<rparr>"

text \<open>A heap holding one allocated block of 48 bytes with payload address \<open>0x1060\<close>.\<close>

definition blk_heap :: heap where
  "blk_heap = \<lparr>mem = PUT (PUT (\<lambda>_. 0) 0x1058 (PACK 48 1)) 0x1080 (PACK 48 1),
     mem_brk = 0x1090, mem_max_addr = 0x100000, heap_listp = 0x1000, free_listp = 0x1010\<rparr>"

text \<open>
  A heap whose free list holds two blocks, \<open>0x1060\<close> (48 bytes) and \<open>0x1090\<close>
  (96 bytes), and ends at the allocated prologue payload \<open>0x1010\<close>.
\<close>

definition list_heap :: heap where
  "list_heap = \<lparr>mem = store64 (PUT (store64 (PUT (PUT (\<lambda>_. 0) 0x1008 (PACK 48 1)) 0x1058 (PACK 48 0))
        0x1070 0x1090) 0x1088 (PACK 96 0)) 0x10A0 0x1010,
     mem_brk = 0x10F0, mem_max_addr = 0x100000, heap_listp = 0x1000, free_listp = 0x1060\<rparr>"

section \<open>Reading memory after a write\<close>

lemma load32_store32_same: "load32 (store32 m p v) p = v"
proof -
  have b: "(p + 1 \<noteq> p) \<and> (p + 2 \<noteq> p) \<and> (p + 3 \<noteq> p) \<and> (p + 2 \<noteq> p + 1) \<and>
      (p + 3 \<noteq> p + 1) \<and> (p + 3 \<noteq> p + 2)"
    by simp
  have "ucast (ucast v :: byte) OR push_bit 8 (ucast (ucast (drop_bit 8 v) :: byte)) OR
      push_bit 16 (ucast (ucast (drop_bit 16 v) :: byte)) OR
      push_bit 24 (ucast (ucast (drop_bit 24 v) :: byte)) = v"
  proof (rule bit_word_eqI)
    fix n assume n: "n < LENGTH(32)"
    consider "n < 8" | "8 \<le> n" "n < 16" | "16 \<le> n" "n < 24" | "24 \<le> n" "n < 32"
      using n by fastforce
    then show "bit (ucast (ucast v :: byte) OR push_bit 8 (ucast (ucast (drop_bit 8 v) :: byte)) OR
        push_bit 16 (ucast (ucast (drop_bit 16 v) :: byte)) OR
        push_bit 24 (ucast (ucast (drop_bit 24 v) :: byte)) :: cint) n = bit v n"
      by cases (auto simp: bit_simps)
  qed
  then show ?thesis
    unfolding load32_def store32_def using b by simp
qed

lemma store32_other: "4 \<le> a - p \<Longrightarrow> store32 m p v a = m a"
proof -
  assume h: "4 \<le> a - p"
  have "a \<noteq> p" "a \<noteq> p + 1" "a \<noteq> p + 2" "a \<noteq> p + 3"
    using h by (auto simp: word_le_nat_alt)
  then show ?thesis by (simp add: store32_def)
qed

lemma load32_store32_disj:
  assumes "4 \<le> q - p" "4 \<le> p - q"
  shows "load32 (store32 m p v) q = load32 m q"
proof -
  have "4 \<le> q + 1 - p" "4 \<le> q + 2 - p" "4 \<le> q + 3 - p"
    using assms by unat_arith+
  then show ?thesis
    using assms by (simp add: load32_def store32_other)
qed

lemma load32_zero: "load32 (\<lambda>_. 0) q = 0"
  by (simp add: load32_def)

lemma GET_PUT_same: "GET (PUT m p v) p = ucast v"
  by (simp add: GET_def PUT_def load32_store32_same)

lemma GET_PUT_disj: "4 \<le> q - p \<Longrightarrow> 4 \<le> p - q \<Longrightarrow> GET (PUT m p v) q = GET m q"
  by (simp add: GET_def PUT_def load32_store32_disj)

lemma GET_zero: "GET (\<lambda>_. 0) q = 0"
  by (simp add: GET_def load32_zero)

lemma GET_store64_disj:
  assumes "8 \<le> q - p" "4 \<le> p - q"
  shows "GET (store64 m p v) q = GET m q"
proof -
  have "4 \<le> q - p" "4 \<le> q - (p + 4)" "4 \<le> p + 4 - q"
    using assms by unat_arith+
  then show ?thesis
    using assms by (simp add: GET_def store64_def load32_store32_disj)
qed

lemma load64_store64_same: "load64 (store64 m p v) p = v"
proof -
  have "(4 :: ptr) \<le> p - (p + 4)" by simp
  then have a: "load32 (store32 (store32 m p (ucast v)) (p + 4) (ucast (drop_bit 32 v))) p = ucast v"
    by (simp add: load32_store32_disj load32_store32_same)
  have "ucast (ucast v :: cint) OR push_bit 32 (ucast (ucast (drop_bit 32 v) :: cint)) = v"
  proof (rule bit_word_eqI)
    fix n assume n: "n < LENGTH(64)"
    consider "n < 32" | "32 \<le> n" "n < 64" using n by fastforce
    then show "bit (ucast (ucast v :: cint) OR push_bit 32 (ucast (ucast (drop_bit 32 v) :: cint)) :: ptr) n = bit v n"
      by cases (auto simp: bit_simps)
  qed
  then show ?thesis
    by (simp add: load64_def store64_def a load32_store32_same)
qed

lemma load64_store64_disj:
  assumes "8 \<le> q - p" "8 \<le> p - q"
  shows "load64 (store64 m p v) q = load64 m q"
proof -
  have "4 \<le> q - p" "4 \<le> q - (p + 4)" "4 \<le> p + 4 - q" "4 \<le> p - q"
    "4 \<le> q + 4 - p" "4 \<le> p - (q + 4)" "4 \<le> q + 4 - (p + 4)" "4 \<le> p + 4 - (q + 4)"
    using assms by unat_arith+
  then show ?thesis
    by (simp add: load64_def store64_def load32_store32_disj)
qed

lemma load64_PUT_disj:
  assumes "4 \<le> q - p" "8 \<le> p - q"
  shows "load64 (PUT m p v) q = load64 m q"
proof -
  have "4 \<le> p - q" "4 \<le> q + 4 - p" "4 \<le> p - (q + 4)"
    using assms by unat_arith+
  then show ?thesis
    using assms by (simp add: load64_def PUT_def load32_store32_disj)
qed

lemma load64_zero: "load64 (\<lambda>_. 0) q = 0"
  by (simp add: load64_def load32_zero)

lemmas rw = GET_PUT_same GET_PUT_disj GET_store64_disj load64_store64_same load64_store64_disj
  load64_PUT_disj GET_zero load64_zero

section \<open>Conversions between \<^verbatim>\<open>int\<close> and \<^verbatim>\<open>size_t\<close>\<close>

lemma ucast_small:
  assumes "uint (sz :: size_t) < 2 ^ 31"
  shows "sint (ucast sz :: cint) = uint sz"
proof -
  have "signed_take_bit 31 (uint sz) = uint sz"
    using assms by (intro signed_take_bit_int_eq_self) (auto intro: order_trans [of _ 0])
  then show ?thesis by (simp add: signed_ucast_eq)
qed

lemma scast_nonneg:
  assumes "0 \<le> sint (g :: cint)"
  shows "uint (scast g :: size_t) = sint g"
proof -
  have "sint g < 2 ^ 31" using sint_lt [of g] by simp
  moreover have "(2::int) ^ 31 \<le> 2 ^ 64" by simp
  ultimately have lt: "sint g < 2 ^ 64" by linarith
  have "take_bit 64 (sint g) = sint g"
    by (rule take_bit_int_eq_self [OF assms lt])
  moreover have "uint (scast g :: size_t) = take_bit LENGTH(64) (sint g)"
    by (simp only: scast_eq uint_word_of_int_eq)
  ultimately show ?thesis
    by simp
qed

section \<open>Reallocation: the early exits\<close>

text \<open>
  Claim C10. \<^verbatim>\<open>mm_realloc\<close> decides its rejection of negative sizes on
  \<^verbatim>\<open>(int)size\<close>: whenever the low 32 bits of \<open>sz\<close>, read as a signed
  \<^verbatim>\<open>int\<close>, are negative, the call returns \<^verbatim>\<open>NULL\<close> and the allocator state is
  the one it was given, whatever the block pointer and however large the
  \<^verbatim>\<open>size_t\<close> value is.
\<close>

theorem mm_realloc_int_negative:
  "(ucast sz :: cint) <s 0 \<Longrightarrow> mm_realloc bp sz h = Some (0, h)"
  by (simp add: mm_realloc_def)

theorem mm_realloc_int_negative_witness:
  "(ucast (2 ^ 31 :: size_t) :: cint) <s 0 \<and>
   mm_realloc 0x1060 (2 ^ 31) blk_heap = Some (0, blk_heap)"
proof -
  have neg: "(ucast (2 ^ 31 :: size_t) :: cint) <s 0"
    by (simp add: word_sless_alt)
  show ?thesis
    using neg mm_realloc_int_negative [OF neg, of "0x1060" blk_heap] by simp
qed

text \<open>
  Claim C8. When \<open>sz\<close> is positive and \<open>sz + 2W\<close> is at most the size that the
  header of \<open>bp\<close> holds (the \<^verbatim>\<open>int\<close> size field of the word before the payload),
  \<^verbatim>\<open>mm_realloc\<close> returns \<open>bp\<close> and the whole state (memory, break, list heads) is
  unchanged.
\<close>

theorem mm_realloc_fits:
  assumes "0 < sz" and "uint sz + 16 \<le> sint (GET_SIZE (mem h) (HDRP bp))"
  shows "mm_realloc bp sz h = Some (bp, h)"
proof -
  let ?g = "GET_SIZE (mem h) (HDRP bp)"
  have g: "sint ?g < 2 ^ 31" using sint_lt [of ?g] by simp
  have szlt: "uint sz < 2 ^ 31 - 16" using assms g by linarith
  have s1: "sint (ucast sz :: cint) = uint sz" using szlt by (intro ucast_small) simp
  have nz: "uint sz \<noteq> 0" using assms(1) by (simp add: word_less_def)
  have n1: "\<not> (ucast sz :: cint) <s 0" using s1 by (simp add: word_sless_alt)
  have n2: "(ucast sz :: cint) \<noteq> 0" using s1 nz by (metis sint_0)
  have gpos: "0 \<le> sint ?g" using assms(2) uint_ge_0 [of sz] by linarith
  have old: "uint (scast ?g :: size_t) = sint ?g"
    using gpos by (rule scast_nonneg)
  have new: "uint (sz + 2 * WSIZE) = uint sz + 16"
    using szlt by (simp add: WSIZE_def uint_word_ariths)
  have "sz + 2 * WSIZE \<le> scast ?g"
    using old new assms(2) by (simp add: word_le_def)
  then show ?thesis
    using n1 n2 assms(1) by (simp add: mm_realloc_def Let_def)
qed

theorem mm_realloc_fits_witness:
  "(0 :: size_t) < 32 \<and> uint (32 :: size_t) + 16 \<le> sint (GET_SIZE (mem blk_heap) (HDRP 0x1060)) \<and>
   GET_ALLOC (mem blk_heap) (HDRP 0x1060) = 1 \<and>
   mm_realloc 0x1060 32 blk_heap = Some (0x1060, blk_heap)"
proof -
  have hdr: "GET (mem blk_heap) (HDRP 0x1060) = 49"
    by (simp add: blk_heap_def HDRP_def WSIZE_def PACK_def GET_PUT_same GET_PUT_disj)
  have pos: "(0 :: size_t) < 32" by simp
  have fit: "uint (32 :: size_t) + 16 \<le> sint (GET_SIZE (mem blk_heap) (HDRP 0x1060))"
    by (simp add: GET_SIZE_def hdr)
  have al: "GET_ALLOC (mem blk_heap) (HDRP 0x1060) = 1"
    by (simp add: GET_ALLOC_def hdr)
  show ?thesis
    using pos fit al mm_realloc_fits [OF pos fit] by simp
qed

section \<open>Width of a boundary tag\<close>

text \<open>
  Claim C4. A header or footer is written by \<^verbatim>\<open>PUT\<close> and read by \<^verbatim>\<open>GET\<close>, which
  access an \<^verbatim>\<open>int\<close>: the stored tag is the low 32 bits of \<open>size | alloc\<close>, the four
  bytes above it are not part of the tag, and a size with bit 32 set reads back without
  it. Here a block of \<open>2 ^ 32 + 32\<close> bytes (what \<^verbatim>\<open>extendHeap\<close> computes for
  \<^verbatim>\<open>mm_malloc(4294967296)\<close>) gets a tag whose size field is 32.
\<close>

theorem tag_is_32_bits:
  "GET (PUT m p v) p = ucast v \<and> PUT m p v (p + 4) = m (p + 4) \<and>
   PUT m p v (p + 7) = m (p + 7) \<and>
   scast (GET_SIZE (PUT m p (PACK (2 ^ 32 + 32) 0)) p) = (32 :: size_t)"
proof -
  have "PUT m p v (p + 4) = m (p + 4)" "PUT m p v (p + 7) = m (p + 7)"
    by (simp_all add: PUT_def store32_other)
  moreover have "scast (GET_SIZE (PUT m p (PACK (2 ^ 32 + 32) 0)) p) = (32 :: size_t)"
    by (simp add: GET_PUT_same GET_SIZE_def PACK_def)
  ultimately show ?thesis
    by (simp add: GET_PUT_same)
qed

section \<open>First-fit search\<close>

lemma findFit_loop_chain:
  "free_chain m p bs \<Longrightarrow>
   findFit_loop m asize p =
     Some (case List.find (\<lambda>b. asize \<le> scast (GET_SIZE m (HDRP b))) bs of
             Some b \<Rightarrow> b | None \<Rightarrow> 0)"
proof (induction bs arbitrary: p)
  case Nil
  then show ?case by (subst findFit_loop.simps) simp
next
  case (Cons b bs)
  then show ?case by (subst findFit_loop.simps) simp
qed

text \<open>
  Claim C7. When the walk from the free-list head along \<^verbatim>\<open>NEXT_FREEP\<close> meets the
  free blocks \<open>bs\<close> and then a block whose allocated bit is set, \<^verbatim>\<open>findFit\<close>
  returns, and its result is the first block of \<open>bs\<close> whose size is at least
  \<open>asize\<close>, or \<^verbatim>\<open>NULL\<close> when no block of \<open>bs\<close> is that large.
\<close>

theorem findFit_first_fit:
  assumes "free_chain (mem h) (free_listp h) bs"
  shows "findFit asize h =
     Some (case List.find (\<lambda>b. asize \<le> scast (GET_SIZE (mem h) (HDRP b))) bs of
             Some b \<Rightarrow> b | None \<Rightarrow> 0)"
  using assms by (simp add: findFit_def findFit_loop_chain)

lemma list_heap_reads:
  "GET (mem list_heap) 0x1058 = 48" "GET (mem list_heap) 0x1088 = 96" "GET (mem list_heap) 0x1008 = 49"
  "load64 (mem list_heap) 0x1070 = 0x1090" "load64 (mem list_heap) 0x10A0 = 0x1010"
  by (simp_all add: list_heap_def rw PACK_def)

theorem findFit_first_fit_witness:
  "free_chain (mem list_heap) (free_listp list_heap) [0x1060, 0x1090] \<and>
   findFit 64 list_heap = Some 0x1090 \<and> findFit 48 list_heap = Some 0x1060 \<and>
   findFit 104 list_heap = Some 0"
proof -
  have fl: "free_listp list_heap = 0x1060" by (simp add: list_heap_def)
  have ch: "free_chain (mem list_heap) (free_listp list_heap) [0x1060, 0x1090]"
    by (simp add: fl GET_ALLOC_def HDRP_def NEXT_FREEP_def WSIZE_def DSIZE_def list_heap_reads)
  show ?thesis
    using ch findFit_first_fit [OF ch, of 64] findFit_first_fit [OF ch, of 48]
      findFit_first_fit [OF ch, of 104]
    by (simp add: GET_SIZE_def HDRP_def WSIZE_def list_heap_reads)
qed

end
